theory Spec2Isabelle
  imports Main
begin

section \<open>The web-scraper server (src/mcp-servers/web-scraper/server.js)\<close>

text \<open>
  A shallow embedding of the four tool operations of \<^verbatim>\<open>WebScraperServer\<close>:
  \<^verbatim>\<open>scrapePage\<close>, \<^verbatim>\<open>testReactApp\<close>, \<^verbatim>\<open>getPageInfo\<close>, \<^verbatim>\<open>waitForElement\<close>, of
  \<^verbatim>\<open>getBrowser\<close> and of the \<^verbatim>\<open>CallToolRequestSchema\<close> handler.

  The browser automation library (Playwright), the clock and the file system are not
  part of the repository: they are a parameter of the model, a record of operations on an
  abstract world \<open>'w\<close>. Every awaited library call may reject, which is the value
  \<open>Inl message\<close>, with two exceptions taken from the library's interface:
  \<^verbatim>\<open>page.waitForTimeout\<close> only lets time pass and \<^verbatim>\<open>browser.close\<close> only
  disposes of the browser, so both are operations \<open>'w \<Rightarrow> 'w\<close>.

  Strings are byte strings (UTF-8); numbers are integers (the fractional part of a
  JavaScript number, and the rounding of integers beyond \<open>2^53\<close>, are not modelled).
\<close>

subsection \<open>JavaScript strings and numbers\<close>

type_synonym fault = string

definition check_mark :: string where
  \<comment> \<open>U+2705, the marker of a successful outcome\<close>
  "check_mark = [CHR 0xE2, CHR 0x9C, CHR 0x85]"

definition cross_mark :: string where
  \<comment> \<open>U+274C, the marker of a failed outcome\<close>
  "cross_mark = [CHR 0xE2, CHR 0x9D, CHR 0x8C]"

definition dquote :: string where
  "dquote = [CHR 0x22]"

definition newline :: string where
  "newline = [CHR 0x0A]"

fun join :: "string \<Rightarrow> string list \<Rightarrow> string" where
  \<comment> \<open>\<^verbatim>\<open>Array.prototype.join\<close> on an array of strings\<close>
  "join sep [] = []"
| "join sep [x] = x"
| "join sep (x # y # ys) = x @ sep @ join sep (y # ys)"

definition digitChar :: "nat \<Rightarrow> char" where
  "digitChar d = char_of (48 + d)"

fun showNat :: "nat \<Rightarrow> string" where
  "showNat n = (if n < 10 then [digitChar n] else showNat (n div 10) @ [digitChar (n mod 10)])"

definition showInt :: "int \<Rightarrow> string" where
  \<comment> \<open>a number inside a template literal\<close>
  "showInt i = (if i < 0 then ''-'' @ showNat (nat (- i)) else showNat (nat i))"

definition showBool :: "bool \<Rightarrow> string" where
  "showBool b = (if b then ''true'' else ''false'')"

definition showUndef :: "string option \<Rightarrow> string" where
  \<comment> \<open>a possibly \<^verbatim>\<open>undefined\<close> string inside a template literal\<close>
  "showUndef v = (case v of None \<Rightarrow> ''undefined'' | Some x \<Rightarrow> x)"

definition showNull :: "string option \<Rightarrow> string" where
  \<comment> \<open>a possibly \<^verbatim>\<open>null\<close> string inside a template literal\<close>
  "showNull v = (case v of None \<Rightarrow> ''null'' | Some x \<Rightarrow> x)"

definition isDigit :: "char \<Rightarrow> bool" where
  \<comment> \<open>the class \<^verbatim>\<open>\d\<close> of a regular expression without the unicode flag\<close>
  "isDigit c = (let n = (of_char c :: nat) in 48 \<le> n \<and> n \<le> 57)"

definition isDigits :: "string \<Rightarrow> bool" where
  \<comment> \<open>\<^verbatim>\<open>s.match(/^\d+$/)\<close> is not null\<close>
  "isDigits w = (w \<noteq> [] \<and> list_all isDigit w)"

definition parseInt :: "string \<Rightarrow> int" where
  \<comment> \<open>\<^verbatim>\<open>parseInt\<close>, which the source applies to strings of \<open>isDigits\<close> only:
      their decimal value\<close>
  "parseInt w = foldl (\<lambda>acc c. 10 * acc + (of_char c - 48)) 0 w"

definition truthy :: "string option \<Rightarrow> bool" where
  \<comment> \<open>a string or \<^verbatim>\<open>undefined\<close> as a condition: the empty string is falsy\<close>
  "truthy v = (case v of None \<Rightarrow> False | Some x \<Rightarrow> x \<noteq> [])"

definition flag :: "bool option \<Rightarrow> bool" where
  \<comment> \<open>a boolean or \<^verbatim>\<open>undefined\<close> as a condition\<close>
  "flag v = (case v of None \<Rightarrow> False | Some b \<Rightarrow> b)"

definition lowerChar :: "char \<Rightarrow> char" where
  "lowerChar c = (let n = (of_char c :: nat) in if 65 \<le> n \<and> n \<le> 90 then char_of (n + 32) else c)"

definition upperChar :: "char \<Rightarrow> char" where
  "upperChar c = (let n = (of_char c :: nat) in if 97 \<le> n \<and> n \<le> 122 then char_of (n - 32) else c)"

definition toLowerCase :: "string \<Rightarrow> string" where
  \<comment> \<open>on ASCII letters\<close>
  "toLowerCase w = map lowerChar w"

definition toUpperCase :: "string \<Rightarrow> string" where
  "toUpperCase w = map upperChar w"

definition isSpace :: "char \<Rightarrow> bool" where
  \<comment> \<open>the ASCII white space and line terminators that \<^verbatim>\<open>trim\<close> removes\<close>
  "isSpace c = ((of_char c :: nat) \<in> set [9, 10, 11, 12, 13, 32])"

definition trim :: "string \<Rightarrow> string" where
  "trim w = rev (dropWhile isSpace (rev (dropWhile isSpace w)))"

subsection \<open>The page as the in-page callbacks of getPageInfo see it\<close>

record element =
  tagName :: string
  \<comment> \<open>the properties \<^verbatim>\<open>name\<close>, \<^verbatim>\<open>property\<close> and \<^verbatim>\<open>content\<close> that the callback
      reads from a \<^verbatim>\<open>meta\<close> element; \<^verbatim>\<open>property\<close> may be \<^verbatim>\<open>undefined\<close>\<close>
  el_name :: string
  el_property :: "string option"
  el_content :: string
  textContent :: string
  hasHref :: bool

record nav_timing =
  domContentLoadedEventStart :: int
  domContentLoadedEventEnd :: int
  loadEventStart :: int
  loadEventEnd :: int

record paint_timing =
  pt_name :: string
  startTime :: int

record dom =
  doc_title :: string
  location_href :: string
  \<comment> \<open>the elements of the document, in document order\<close>
  doc_elements :: "element list"
  \<comment> \<open>\<^verbatim>\<open>performance.getEntriesByType('navigation')\<close> and \<^verbatim>\<open>('paint')\<close>\<close>
  navigationEntries :: "nav_timing list"
  paintEntries :: "paint_timing list"

subsection \<open>The library, and the state of a request\<close>

record ('w, 'h) playwright =
  pw_launch :: "string \<Rightarrow> 'w \<Rightarrow> (fault + unit) \<times> 'w"
  pw_newPage :: "'w \<Rightarrow> (fault + unit) \<times> 'w"
  pw_goto :: "string \<Rightarrow> 'w \<Rightarrow> (fault + unit) \<times> 'w"
  \<comment> \<open>\<^verbatim>\<open>page.waitForTimeout\<close>: a timer, taken not to reject\<close>
  pw_waitForTimeout :: "int \<Rightarrow> 'w \<Rightarrow> 'w"
  pw_waitForSelector :: "string option \<Rightarrow> int \<Rightarrow> 'w \<Rightarrow> (fault + unit) \<times> 'w"
  pw_click :: "string option \<Rightarrow> int \<Rightarrow> 'w \<Rightarrow> (fault + unit) \<times> 'w"
  pw_fill :: "string option \<Rightarrow> string option \<Rightarrow> int \<Rightarrow> 'w \<Rightarrow> (fault + unit) \<times> 'w"
  pw_screenshot :: "'w \<Rightarrow> (fault + string) \<times> 'w"
  pw_textContent :: "string option \<Rightarrow> 'w \<Rightarrow> (fault + string option) \<times> 'w"
  pw_getAttribute :: "string option \<Rightarrow> string option \<Rightarrow> 'w \<Rightarrow> (fault + string option) \<times> 'w"
  pw_queryAll :: "string \<Rightarrow> 'w \<Rightarrow> (fault + 'h list) \<times> 'w"
  pw_query :: "string \<Rightarrow> 'w \<Rightarrow> (fault + 'h option) \<times> 'w"
  el_textContent :: "'h \<Rightarrow> 'w \<Rightarrow> (fault + string option) \<times> 'w"
  el_isVisible :: "'h \<Rightarrow> 'w \<Rightarrow> (fault + bool) \<times> 'w"
  \<comment> \<open>\<^verbatim>\<open>page.evaluate\<close>: the document its callback runs on, unless the call rejects\<close>
  pw_evaluate :: "'w \<Rightarrow> (fault + dom) \<times> 'w"
  \<comment> \<open>\<^verbatim>\<open>browser.close\<close>, taken not to reject\<close>
  pw_close :: "'w \<Rightarrow> 'w"
  date_now :: "'w \<Rightarrow> int"
  fs_writeFileSync :: "string \<Rightarrow> string \<Rightarrow> 'w \<Rightarrow> (fault + unit) \<times> 'w"

datatype call =
    Launch string
  | NewPage
  | Goto string
  | WaitForTimeout int
  | WaitForSelector "string option" int
  | Click "string option" int
  | Fill "string option" "string option" int
  | Screenshot
  | WriteFile string
  | TextContent "string option"
  | GetAttribute "string option" "string option"
  | QueryAll string
  | Query string
  | ElementTextContent
  | ElementIsVisible
  | Evaluate
  | Close

record 'w state =
  \<comment> \<open>the library calls made so far, in order\<close>
  trace :: "call list"
  \<comment> \<open>browsers launched, and calls of \<^verbatim>\<open>browser.close\<close>\<close>
  started :: nat
  stopped :: nat
  world :: 'w

type_synonym ('w, 'a) io = "'w state \<Rightarrow> (fault + 'a) \<times> 'w state"

definition ret :: "'a \<Rightarrow> ('w, 'a) io" where
  "ret x s = (Inr x, s)"

definition throw :: "fault \<Rightarrow> ('w, 'a) io" where
  "throw e s = (Inl e, s)"

definition andThen :: "('w, 'a) io \<Rightarrow> ('a \<Rightarrow> ('w, 'b) io) \<Rightarrow> ('w, 'b) io" where
  \<comment> \<open>\<^verbatim>\<open>const x = await m; k(x)\<close>: a rejection of \<open>m\<close> skips \<open>k\<close>\<close>
  "andThen m k s = (case m s of (Inl e, s') \<Rightarrow> (Inl e, s') | (Inr x, s') \<Rightarrow> k x s')"

definition tryFinally :: "('w, 'a) io \<Rightarrow> ('w state \<Rightarrow> 'w state) \<Rightarrow> ('w, 'a) io" where
  \<comment> \<open>\<^verbatim>\<open>try { body } finally { fin }\<close>, for a \<open>fin\<close> that cannot throw\<close>
  "tryFinally body fin s = (case body s of (r, s') \<Rightarrow> (r, fin s'))"

definition invoke :: "call \<Rightarrow> ('w \<Rightarrow> (fault + 'a) \<times> 'w) \<Rightarrow> ('w, 'a) io" where
  \<comment> \<open>one awaited library call\<close>
  "invoke c f s = (case f (world s) of (r, w') \<Rightarrow> (r, s\<lparr>trace := trace s @ [c], world := w'\<rparr>))"

definition dateNow :: "('w, 'h) playwright \<Rightarrow> ('w, int) io" where
  "dateNow env s = (Inr (date_now env (world s)), s)"

definition prototypeNames :: "string list" where
  \<comment> \<open>the properties every object literal inherits\<close>
  "prototypeNames = [''constructor'', ''toString'', ''toLocaleString'', ''valueOf'',
     ''hasOwnProperty'', ''isPrototypeOf'', ''propertyIsEnumerable'', ''__proto__'',
     ''__defineGetter__'', ''__defineSetter__'', ''__lookupGetter__'', ''__lookupSetter__'']"

definition getBrowser :: "('w, 'h) playwright \<Rightarrow> string option \<Rightarrow> ('w, unit) io" where
  "getBrowser env browserType0 =
     (let browserType = (case browserType0 of None \<Rightarrow> ''chromium'' | Some b \<Rightarrow> b) in
      if browserType \<in> set [''chromium'', ''firefox'', ''webkit'']
      then (\<lambda>s. case pw_launch env browserType (world s) of
                  (Inl e, w') \<Rightarrow> (Inl e, s\<lparr>trace := trace s @ [Launch browserType], world := w'\<rparr>)
                | (Inr u, w') \<Rightarrow> (Inr u, s\<lparr>trace := trace s @ [Launch browserType],
                                              started := Suc (started s), world := w'\<rparr>))
      else if browserType \<in> set prototypeNames
      then throw ''browsers[browserType].launch is not a function''
      else throw ''Cannot read properties of undefined (reading 'launch')'')"

definition closeBrowser :: "('w, 'h) playwright \<Rightarrow> 'w state \<Rightarrow> 'w state" where
  "closeBrowser env s =
     s\<lparr>trace := trace s @ [Close], stopped := Suc (stopped s), world := pw_close env (world s)\<rparr>"

subsection \<open>Arguments of the tools\<close>

record tool_args =
  url :: string
  browser :: "string option"

record scrape_args = tool_args +
  selector :: "string option"
  waitFor :: "string option"
  screenshot :: "bool option"

record action =
  \<comment> \<open>the fields \<^verbatim>\<open>type\<close>, \<^verbatim>\<open>selector\<close>, \<^verbatim>\<open>value\<close> and \<^verbatim>\<open>timeout\<close> of an action\<close>
  a_type :: string
  a_selector :: "string option"
  a_value :: "string option"
  a_timeout :: "int option"

record test_args = tool_args +
  actions :: "action list"

record info_args = tool_args +
  includePerformance :: "bool option"

record wait_args = tool_args +
  w_selector :: string
  w_timeout :: "int option"

definition browserOf :: "'z tool_args_scheme \<Rightarrow> string" where
  \<comment> \<open>\<^verbatim>\<open>browser: browserType = 'chromium'\<close> of the destructuring\<close>
  "browserOf args = (case browser args of None \<Rightarrow> ''chromium'' | Some b \<Rightarrow> b)"

subsection \<open>scrapePage\<close>

definition invokeTimer :: "('w, 'h) playwright \<Rightarrow> int \<Rightarrow> ('w, unit) io" where
  \<comment> \<open>\<^verbatim>\<open>await page.waitForTimeout(ms)\<close>\<close>
  "invokeTimer env ms s =
     (Inr (), s\<lparr>trace := trace s @ [WaitForTimeout ms], world := pw_waitForTimeout env ms (world s)\<rparr>)"

definition scrapeWait :: "('w, 'h) playwright \<Rightarrow> string option \<Rightarrow> ('w, unit) io" where
  \<comment> \<open>lines 217 to 223\<close>
  "scrapeWait env waitFor0 =
     (case waitFor0 of
        None \<Rightarrow> ret ()
      | Some w \<Rightarrow>
          if w = [] then ret ()
          else if isDigits w then invokeTimer env (parseInt w)
          else invoke (WaitForSelector (Some w) 10000) (pw_waitForSelector env (Some w) 10000))"

fun promiseAll :: "('w, 'a) io list \<Rightarrow> ('w, 'a list) io" where
  \<comment> \<open>\<^verbatim>\<open>Promise.all\<close> over calls started in order: every call is made, and the first
      rejection (in order) is the result\<close>
  "promiseAll [] s = (Inr [], s)"
| "promiseAll (m # ms) s =
     (case m s of (r, s') \<Rightarrow>
        (case promiseAll ms s' of (rs, s'') \<Rightarrow>
           ((case r of
               Inl e \<Rightarrow> Inl e
             | Inr x \<Rightarrow> (case rs of Inl e \<Rightarrow> Inl e | Inr xs \<Rightarrow> Inr (x # xs))), s'')))"

definition scrapeContent :: "('w, 'h) playwright \<Rightarrow> string option \<Rightarrow> ('w, string) io" where
  \<comment> \<open>lines 225 to 233, and the rendering of \<^verbatim>\<open>content\<close> of line 239; \<^verbatim>\<open>join\<close>
      renders a \<^verbatim>\<open>null\<close> element as the empty string\<close>
  "scrapeContent env selector0 =
     (if truthy selector0
      then (let sel = showUndef selector0 in
            andThen (invoke (QueryAll sel) (pw_queryAll env sel)) (\<lambda>elements.
            andThen (promiseAll (map (\<lambda>el. invoke ElementTextContent (el_textContent env el)) elements))
              (\<lambda>content.
            ret (join (newline @ ''---'' @ newline)
                   (map (\<lambda>c. case c of None \<Rightarrow> [] | Some t \<Rightarrow> t) content)))))
      else andThen (invoke (TextContent (Some ''body'')) (pw_textContent env (Some ''body'')))
             (\<lambda>content. ret (showNull content)))"

definition scrapeExtract :: "('w, 'h) playwright \<Rightarrow> 'z scrape_args_scheme \<Rightarrow> ('w, string list) io" where
  \<comment> \<open>lines 225 to 254\<close>
  "scrapeExtract env args =
     andThen (scrapeContent env (selector args)) (\<lambda>content.
     let text = ''Scraped content from '' @ url args @ '':'' @ newline @ newline @ content in
     if flag (screenshot args)
     then andThen (invoke Screenshot (pw_screenshot env)) (\<lambda>screenshotBuffer.
          andThen (dateNow env) (\<lambda>now.
          let screenshotPath = ''/tmp/screenshot-'' @ showInt now @ ''.png'' in
          andThen (invoke (WriteFile screenshotPath)
                     (fs_writeFileSync env screenshotPath screenshotBuffer)) (\<lambda>_.
          ret [text, ''Screenshot saved to: '' @ screenshotPath])))
     else ret [text])"

definition scrapePage :: "('w, 'h) playwright \<Rightarrow> 'z scrape_args_scheme \<Rightarrow> ('w, string list) io" where
  "scrapePage env args =
     andThen (getBrowser env (Some (browserOf args))) (\<lambda>_.
     andThen (invoke NewPage (pw_newPage env)) (\<lambda>_.
     tryFinally
       (andThen (invoke (Goto (url args)) (pw_goto env (url args))) (\<lambda>_.
        andThen (scrapeWait env (waitFor args)) (\<lambda>_.
        scrapeExtract env args)))
       (closeBrowser env)))"

subsection \<open>testReactApp\<close>

definition performAction :: "('w, 'h) playwright \<Rightarrow> action \<Rightarrow> ('w, string) io" where
  \<comment> \<open>the \<^verbatim>\<open>switch\<close> of lines 275 to 310: the library calls of one action and, when
      none of them rejects, the line the branch pushes\<close>
  "performAction env a =
     (let type = a_type a; selector = a_selector a; value = a_value a;
          timeout = (case a_timeout a of None \<Rightarrow> 5000 | Some t \<Rightarrow> t) in
      if type = ''click'' then
        andThen (invoke (Click selector timeout) (pw_click env selector timeout)) (\<lambda>_.
        ret (check_mark @ '' Clicked: '' @ showUndef selector))
      else if type = ''fill'' then
        andThen (invoke (Fill selector value timeout) (pw_fill env selector value timeout)) (\<lambda>_.
        ret (check_mark @ '' Filled '' @ dquote @ showUndef value @ dquote @ '' into: ''
               @ showUndef selector))
      else if type = ''wait'' then
        andThen (invoke (WaitForSelector selector timeout)
                   (pw_waitForSelector env selector timeout)) (\<lambda>_.
        ret (check_mark @ '' Waited for: '' @ showUndef selector))
      else if type = ''screenshot'' then
        andThen (invoke Screenshot (pw_screenshot env)) (\<lambda>screenshotBuffer.
        andThen (dateNow env) (\<lambda>now.
        let screenshotPath = ''/tmp/react-test-'' @ showInt now @ ''.png'' in
        andThen (invoke (WriteFile screenshotPath)
                   (fs_writeFileSync env screenshotPath screenshotBuffer)) (\<lambda>_.
        ret (check_mark @ '' Screenshot saved: '' @ screenshotPath))))
      else if type = ''getText'' then
        andThen (invoke (TextContent selector) (pw_textContent env selector)) (\<lambda>text.
        ret (check_mark @ '' Text from '' @ showUndef selector @ '': ''
               @ dquote @ showNull text @ dquote))
      else if type = ''getAttribute'' then
        andThen (invoke (GetAttribute selector value) (pw_getAttribute env selector value)) (\<lambda>attr.
        ret (check_mark @ '' Attribute '' @ dquote @ showUndef value @ dquote @ '' from ''
               @ showUndef selector @ '': '' @ dquote @ showNull attr @ dquote))
      else ret (cross_mark @ '' Unknown action type: '' @ type))"

definition failedLine :: "action \<Rightarrow> fault \<Rightarrow> string" where
  \<comment> \<open>line 312\<close>
  "failedLine a message =
     cross_mark @ '' Failed '' @ a_type a @ '' on '' @ showUndef (a_selector a) @ '': '' @ message"

definition runAction :: "('w, 'h) playwright \<Rightarrow> action \<Rightarrow> string list \<Rightarrow> 'w state
    \<Rightarrow> string list \<times> 'w state" where
  \<comment> \<open>one iteration of the loop: the \<^verbatim>\<open>try\<close> of line 274 with its \<^verbatim>\<open>catch\<close>\<close>
  "runAction env a results s =
     (case performAction env a s of
        (Inr line, s') \<Rightarrow> (results @ [line], s')
      | (Inl message, s') \<Rightarrow> (results @ [failedLine a message], s'))"

fun runActions :: "('w, 'h) playwright \<Rightarrow> action list \<Rightarrow> string list \<Rightarrow> 'w state
    \<Rightarrow> string list \<times> 'w state" where
  \<comment> \<open>the loop of lines 271 to 314\<close>
  "runActions env [] results s = (results, s)"
| "runActions env (a # rest) results s =
     (case runAction env a results s of (results', s') \<Rightarrow> runActions env rest results' s')"

definition navigatedLine :: "string \<Rightarrow> string" where
  "navigatedLine u = check_mark @ '' Navigated to '' @ u"

definition testReport :: "string list \<Rightarrow> string list" where
  \<comment> \<open>the content of the response, lines 316 to 323\<close>
  "testReport results = [''React App Test Results:'' @ newline @ newline @ join newline results]"

definition testReactApp :: "('w, 'h) playwright \<Rightarrow> 'z test_args_scheme \<Rightarrow> ('w, string list) io" where
  "testReactApp env args =
     andThen (getBrowser env (Some (browserOf args))) (\<lambda>_.
     andThen (invoke NewPage (pw_newPage env)) (\<lambda>_.
     tryFinally
       (andThen (invoke (Goto (url args)) (pw_goto env (url args))) (\<lambda>_.
        (\<lambda>s. case runActions env (actions args) [navigatedLine (url args)] s of
               (results, s') \<Rightarrow> (Inr (testReport results), s'))))
       (closeBrowser env)))"

subsection \<open>getPageInfo\<close>

record meta_tag =
  mt_name :: "string option"
  mt_content :: string

record heading =
  h_tag :: string
  h_text :: string

record page_info =
  pi_title :: string
  pi_url :: string
  pi_metaTags :: "meta_tag list"
  pi_headings :: "heading list"
  pi_links :: nat
  pi_images :: nat
  pi_forms :: nat

record metrics =
  domContentLoaded :: int
  loadComplete :: int
  firstPaint :: "int option"
  firstContentfulPaint :: "int option"

definition querySelectorAll :: "string list \<Rightarrow> dom \<Rightarrow> element list" where
  \<comment> \<open>\<^verbatim>\<open>document.querySelectorAll\<close> of a list of type selectors: the elements of one of
      these types, in document order\<close>
  "querySelectorAll tags d = filter (\<lambda>e. toLowerCase (tagName e) \<in> set tags) (doc_elements d)"

definition orElse :: "string \<Rightarrow> string option \<Rightarrow> string option" where
  \<comment> \<open>\<^verbatim>\<open>a || b\<close> for a string \<open>a\<close>\<close>
  "orElse a b = (if a \<noteq> [] then Some a else b)"

definition collectInfo :: "dom \<Rightarrow> page_info" where
  \<comment> \<open>the callback of lines 340 to 354\<close>
  "collectInfo d =
     \<lparr>pi_title = doc_title d,
      pi_url = location_href d,
      pi_metaTags =
        filter (\<lambda>meta. truthy (mt_name meta))
          (map (\<lambda>meta. \<lparr>mt_name = orElse (el_name meta) (el_property meta),
                          mt_content = el_content meta\<rparr>)
             (querySelectorAll [''meta''] d)),
      pi_headings =
        map (\<lambda>h. \<lparr>h_tag = toLowerCase (tagName h), h_text = trim (textContent h)\<rparr>)
          (querySelectorAll [''h1'', ''h2'', ''h3''] d),
      pi_links = length (filter hasHref (querySelectorAll [''a''] d)),
      pi_images = length (querySelectorAll [''img''] d),
      pi_forms = length (querySelectorAll [''form''] d)\<rparr>"

definition paintStart :: "string \<Rightarrow> dom \<Rightarrow> int option" where
  \<comment> \<open>\<^verbatim>\<open>performance.getEntriesByType('paint').find(p => p.name === n)?.startTime\<close>\<close>
  "paintStart n d = map_option startTime (find (\<lambda>p. pt_name p = n) (paintEntries d))"

definition collectMetrics :: "dom \<Rightarrow> fault + metrics" where
  \<comment> \<open>the callback of lines 358 to 366; reading a field of the missing first navigation
      entry is a TypeError\<close>
  "collectMetrics d =
     (case navigationEntries d of
        [] \<Rightarrow> Inl ''Cannot read properties of undefined (reading 'domContentLoadedEventEnd')''
      | perf # _ \<Rightarrow>
          Inr \<lparr>domContentLoaded = domContentLoadedEventEnd perf - domContentLoadedEventStart perf,
               loadComplete = loadEventEnd perf - loadEventStart perf,
               firstPaint = paintStart ''first-paint'' d,
               firstContentfulPaint = paintStart ''first-contentful-paint'' d\<rparr>)"

definition orNA :: "int option \<Rightarrow> string" where
  \<comment> \<open>\<^verbatim>\<open>${x || 'N/A'}\<close>: \<^verbatim>\<open>undefined\<close> and 0 are falsy\<close>
  "orNA x = (case x of None \<Rightarrow> ''N/A'' | Some n \<Rightarrow> if n = 0 then ''N/A'' else showInt n)"

definition performanceText :: "int \<Rightarrow> metrics \<Rightarrow> string" where
  \<comment> \<open>lines 368 to 373\<close>
  "performanceText loadTime m =
     newline @ newline @ ''Performance Metrics:'' @ newline
     @ ''- Page Load Time: '' @ showInt loadTime @ ''ms'' @ newline
     @ ''- DOM Content Loaded: '' @ showInt (domContentLoaded m) @ ''ms'' @ newline
     @ ''- Load Complete: '' @ showInt (loadComplete m) @ ''ms'' @ newline
     @ ''- First Paint: '' @ orNA (firstPaint m) @ ''ms'' @ newline
     @ ''- First Contentful Paint: '' @ orNA (firstContentfulPaint m) @ ''ms''"

definition infoText :: "string \<Rightarrow> page_info \<Rightarrow> string" where
  \<comment> \<open>lines 380 to 394, up to the performance part\<close>
  "infoText u info =
     ''Page Information for '' @ u @ '':'' @ newline @ newline
     @ ''Title: '' @ pi_title info @ newline
     @ ''URL: '' @ pi_url info @ newline @ newline
     @ ''Meta Tags:'' @ newline
     @ join newline (map (\<lambda>meta. ''- '' @ showUndef (mt_name meta) @ '': '' @ mt_content meta)
                       (pi_metaTags info)) @ newline @ newline
     @ ''Headings:'' @ newline
     @ join newline (map (\<lambda>h. ''- '' @ toUpperCase (h_tag h) @ '': '' @ h_text h)
                       (pi_headings info)) @ newline @ newline
     @ ''Page Elements:'' @ newline
     @ ''- Links: '' @ showInt (int (pi_links info)) @ newline
     @ ''- Images: '' @ showInt (int (pi_images info)) @ newline
     @ ''- Forms: '' @ showInt (int (pi_forms info))"

definition performancePart :: "('w, 'h) playwright \<Rightarrow> bool option \<Rightarrow> int \<Rightarrow> ('w, string) io" where
  \<comment> \<open>lines 356 to 374: the value of \<^verbatim>\<open>performanceInfo\<close>\<close>
  "performancePart env includePerformance0 loadTime =
     (if flag includePerformance0
      then andThen (invoke Evaluate (pw_evaluate env)) (\<lambda>d.
           case collectMetrics d of
             Inl e \<Rightarrow> throw e
           | Inr m \<Rightarrow> ret (performanceText loadTime m))
      else ret [])"

definition getPageInfo :: "('w, 'h) playwright \<Rightarrow> 'z info_args_scheme \<Rightarrow> ('w, string list) io" where
  "getPageInfo env args =
     andThen (getBrowser env (Some (browserOf args))) (\<lambda>_.
     andThen (invoke NewPage (pw_newPage env)) (\<lambda>_.
     tryFinally
       (andThen (dateNow env) (\<lambda>startTime.
        andThen (invoke (Goto (url args)) (pw_goto env (url args))) (\<lambda>_.
        andThen (dateNow env) (\<lambda>endTime.
        let loadTime = endTime - startTime in
        andThen (invoke Evaluate (pw_evaluate env)) (\<lambda>d.
        let info = collectInfo d in
        andThen (performancePart env (includePerformance args) loadTime) (\<lambda>performanceInfo.
        ret [infoText (url args) info @ performanceInfo]))))))
       (closeBrowser env)))"

subsection \<open>waitForElement\<close>

definition waitForElement :: "('w, 'h) playwright \<Rightarrow> 'z wait_args_scheme \<Rightarrow> ('w, string list) io" where
  "waitForElement env args =
     (let selector = w_selector args;
          timeout = (case w_timeout args of None \<Rightarrow> 10000 | Some t \<Rightarrow> t) in
      andThen (getBrowser env (Some (browserOf args))) (\<lambda>_.
      andThen (invoke NewPage (pw_newPage env)) (\<lambda>_.
      tryFinally
        (andThen (invoke (Goto (url args)) (pw_goto env (url args))) (\<lambda>_.
         andThen (dateNow env) (\<lambda>startTime.
         andThen (invoke (WaitForSelector (Some selector) timeout)
                    (pw_waitForSelector env (Some selector) timeout)) (\<lambda>_.
         andThen (dateNow env) (\<lambda>endTime.
         let waitTime = endTime - startTime in
         andThen (invoke (Query selector) (pw_query env selector)) (\<lambda>element.
         case element of
           None \<Rightarrow> throw ''Cannot read properties of null (reading 'textContent')''
         | Some el \<Rightarrow>
             andThen (invoke ElementTextContent (el_textContent env el)) (\<lambda>text.
             andThen (invoke ElementIsVisible (el_isVisible env el)) (\<lambda>isVisible.
             ret [check_mark @ '' Element found: '' @ selector @ newline
                  @ ''Wait time: '' @ showInt waitTime @ ''ms'' @ newline
                  @ ''Visible: '' @ showBool isVisible @ newline
                  @ ''Text content: '' @ dquote @ showNull text @ dquote]))))))))
        (closeBrowser env))))"

subsection \<open>The request handler\<close>

datatype request =
    Scrape_page scrape_args
  | Test_react_app test_args
  | Get_page_info info_args
  | Wait_for_element wait_args
  | Other_tool string

record response =
  content :: "string list"
  isError :: bool

definition callTool :: "('w, 'h) playwright \<Rightarrow> request \<Rightarrow> 'w state \<Rightarrow> response \<times> 'w state" where
  \<comment> \<open>lines 172 to 199\<close>
  "callTool env req s =
     (case (case req of
              Scrape_page args \<Rightarrow> scrapePage env args
            | Test_react_app args \<Rightarrow> testReactApp env args
            | Get_page_info args \<Rightarrow> getPageInfo env args
            | Wait_for_element args \<Rightarrow> waitForElement env args
            | Other_tool name \<Rightarrow> throw (''Unknown tool: '' @ name)) s of
        (Inr texts, s') \<Rightarrow> (\<lparr>content = texts, isError = False\<rparr>, s')
      | (Inl message, s') \<Rightarrow> (\<lparr>content = [''Error: '' @ message], isError = True\<rparr>, s'))"

subsection \<open>The outcome entries of an action sequence\<close>

fun outcomes :: "('w, 'h) playwright \<Rightarrow> action list \<Rightarrow> 'w state \<Rightarrow> string list" where
  \<comment> \<open>the outcome entry of each action in input order, every action performed in the
      state its predecessors left: what the loop is compared with\<close>
  "outcomes env [] s = []"
| "outcomes env (a # rest) s =
     (case performAction env a s of
        (Inr line, s') \<Rightarrow> line # outcomes env rest s'
      | (Inl message, s') \<Rightarrow> failedLine a message # outcomes env rest s')"

definition outcomeOf :: "('w, 'h) playwright \<Rightarrow> action \<Rightarrow> 'w state \<Rightarrow> string" where
  \<comment> \<open>the entry that one action, performed in state \<open>s\<close>, adds to the results\<close>
  "outcomeOf env a s =
     (case performAction env a s of
        (Inr line, s') \<Rightarrow> line
      | (Inl message, s') \<Rightarrow> failedLine a message)"

definition knownBrowser :: "string \<Rightarrow> bool" where
  \<comment> \<open>the keys of the object \<^verbatim>\<open>browsers\<close> of getBrowser\<close>
  "knownBrowser b = (b \<in> set [''chromium'', ''firefox'', ''webkit''])"

definition knownKind :: "string \<Rightarrow> bool" where
  \<comment> \<open>the \<^verbatim>\<open>case\<close> labels of the \<^verbatim>\<open>switch\<close>\<close>
  "knownKind t = (t \<in> set [''click'', ''fill'', ''wait'', ''screenshot'', ''getText'', ''getAttribute''])"

definition sessions :: "'w state \<Rightarrow> nat \<times> nat" where
  \<comment> \<open>the counter of started engines and the counter of stopped ones\<close>
  "sessions s = (started s, stopped s)"

definition init :: "'w \<Rightarrow> 'w state" where
  \<comment> \<open>the state before a request\<close>
  "init w = \<lparr>trace = [], started = 0, stopped = 0, world = w\<rparr>"

subsection \<open>A concrete browser, for the examples\<close>

record demo_world =
  clock :: int
  \<comment> \<open>the selectors that resolve to an element\<close>
  present :: "string list"
  page :: dom
  \<comment> \<open>whether \<^verbatim>\<open>browser.newPage\<close> succeeds\<close>
  pageCreation :: bool

definition locate :: "string option \<Rightarrow> int \<Rightarrow> demo_world \<Rightarrow> (fault + unit) \<times> demo_world" where
  "locate sel t w =
     (case sel of
        None \<Rightarrow> (Inl ''selector: expected string, got undefined'', w)
      | Some x \<Rightarrow>
          if x \<in> set (present w) then (Inr (), w)
          else (Inl ''Timeout exceeded.'', w\<lparr>clock := clock w + t\<rparr>))"

definition demo :: "(demo_world, string) playwright" where
  "demo =
     \<lparr>pw_launch = (\<lambda>b w. (Inr (), w)),
      pw_newPage = (\<lambda>w. if pageCreation w then (Inr (), w)
                         else (Inl ''Target page, context or browser has been closed'', w)),
      pw_goto = (\<lambda>u w. (Inr (), w\<lparr>clock := clock w + 150\<rparr>)),
      pw_waitForTimeout = (\<lambda>ms w. w\<lparr>clock := clock w + ms\<rparr>),
      pw_waitForSelector = locate,
      pw_click = locate,
      pw_fill = (\<lambda>sel v t w. case v of
                   None \<Rightarrow> (Inl ''value: expected string, got undefined'', w)
                 | Some x \<Rightarrow> locate sel t w),
      pw_screenshot = (\<lambda>w. (Inr ''png'', w)),
      pw_textContent = (\<lambda>sel w. case locate sel 30000 w of
                          (Inl e, w') \<Rightarrow> (Inl e, w')
                        | (Inr u, w') \<Rightarrow> (Inr (Some (''text of '' @ showUndef sel)), w')),
      pw_getAttribute = (\<lambda>sel v w. case locate sel 30000 w of
                           (Inl e, w') \<Rightarrow> (Inl e, w')
                         | (Inr u, w') \<Rightarrow> (Inr None, w')),
      pw_queryAll = (\<lambda>sel w. (Inr (filter (\<lambda>x. x = sel) (present w)), w)),
      pw_query = (\<lambda>sel w. (Inr (find (\<lambda>x. x = sel) (present w)), w)),
      el_textContent = (\<lambda>h w. (Inr (Some (''text of '' @ h)), w)),
      el_isVisible = (\<lambda>h w. (Inr True, w)),
      pw_evaluate = (\<lambda>w. (Inr (page w), w)),
      pw_close = (\<lambda>w. w),
      date_now = clock,
      fs_writeFileSync = (\<lambda>path buffer w. (Inl ''require is not defined'', w))\<rparr>"

definition mkElement :: "string \<Rightarrow> string \<Rightarrow> element" where
  "mkElement t txt =
     \<lparr>tagName = t, el_name = [], el_property = None, el_content = [], textContent = txt,
      hasHref = False\<rparr>"

definition demo_dom :: dom where
  "demo_dom =
     \<lparr>doc_title = ''Demo'',
      location_href = ''http://localhost:3000/'',
      doc_elements =
        [(mkElement ''META'' [])\<lparr>el_name := ''description'', el_content := ''A page''\<rparr>,
         (mkElement ''META'' [])\<lparr>el_content := ''utf-8''\<rparr>,
         mkElement ''H1'' '' Welcome '',
         mkElement ''H4'' ''Details'',
         (mkElement ''A'' ''home'')\<lparr>hasHref := True\<rparr>,
         mkElement ''H3'' ''Contact'',
         mkElement ''H2'' ''About'',
         mkElement ''H6'' ''Small print''],
      navigationEntries =
        [\<lparr>domContentLoadedEventStart = 40, domContentLoadedEventEnd = 45,
          loadEventStart = 90, loadEventEnd = 92\<rparr>],
      paintEntries = [\<lparr>pt_name = ''first-contentful-paint'', startTime = 80\<rparr>]\<rparr>"

definition demo_world0 :: demo_world where
  "demo_world0 =
     \<lparr>clock = 1000, present = [''body'', ''#login'', ''#user'', ''#status''], page = demo_dom,
      pageCreation = True\<rparr>"

definition demo_world_nopage :: demo_world where
  \<comment> \<open>a browser that starts and then fails to create a page\<close>
  "demo_world_nopage = demo_world0\<lparr>pageCreation := False\<rparr>"


record scrape_args_extra = scrape_args +
  \<comment> \<open>a request that carries a field the destructuring of scrapePage does not read\<close>
  extra_timeout :: int

definition scrapeArgs :: "string option \<Rightarrow> string option \<Rightarrow> scrape_args" where
  "scrapeArgs sel w =
     \<lparr>url = ''http://localhost:3000'', browser = None, selector = sel, waitFor = w,
      screenshot = None\<rparr>"

definition infoArgs :: "bool option \<Rightarrow> info_args" where
  "infoArgs p = \<lparr>url = ''http://localhost:3000'', browser = None, includePerformance = p\<rparr>"

definition waitArgs :: "string \<Rightarrow> wait_args" where
  "waitArgs sel =
     \<lparr>url = ''http://localhost:3000'', browser = None, w_selector = sel, w_timeout = None\<rparr>"

definition mkAction :: "string \<Rightarrow> string option \<Rightarrow> string option \<Rightarrow> action" where
  "mkAction t sel v = \<lparr>a_type = t, a_selector = sel, a_value = v, a_timeout = None\<rparr>"

definition demo_actions :: "action list" where
  \<comment> \<open>a click, a fill, a click on a missing element, a read\<close>
  "demo_actions =
     [mkAction ''click'' (Some ''#login'') None,
      mkAction ''fill'' (Some ''#user'') (Some ''alice''),
      mkAction ''click'' (Some ''#missing'') None,
      mkAction ''getText'' (Some ''#status'') None]"

definition testArgs :: "action list \<Rightarrow> test_args" where
  "testArgs acts = \<lparr>url = ''http://localhost:3000'', browser = None, actions = acts\<rparr>"

section \<open>Properties\<close>

subsection \<open>The action loop and the common prefix of the four operations\<close>

lemma runActions_outcomes:
  "fst (runActions env acts results s) = results @ outcomes env acts s"
  by (induction acts arbitrary: results s)
     (auto simp: runAction_def split: prod.splits sum.splits)


lemma runActions_append:
  "runActions env (xs @ ys) results s =
     runActions env ys (fst (runActions env xs results s)) (snd (runActions env xs results s))"
  by (induction xs arbitrary: results s) (auto split: prod.splits)

lemma outcomes_Cons:
  "outcomes env (a # rest) s = outcomeOf env a s # outcomes env rest (snd (performAction env a s))"
  by (simp add: outcomeOf_def split: prod.splits sum.splits)





lemma session_prefix:
  assumes "knownBrowser b"
    and "pw_launch env b (world s) = (Inr (), w1)"
    and "pw_newPage env w1 = (Inr (), w2)"
  shows "andThen (getBrowser env (Some b)) (\<lambda>_. andThen (invoke NewPage (pw_newPage env)) (\<lambda>_. body)) s
       = body \<lparr>trace = trace s @ [Launch b, NewPage], started = Suc (started s),
               stopped = stopped s, world = w2\<rparr>"
  using assms by (cases s) (simp add: andThen_def getBrowser_def invoke_def knownBrowser_def)

lemma goto_step:
  assumes "pw_goto env u (world s) = (Inr (), w3)"
  shows "andThen (invoke (Goto u) (pw_goto env u)) (\<lambda>_. body) s
       = body \<lparr>trace = trace s @ [Goto u], started = started s, stopped = stopped s, world = w3\<rparr>"
  using assms by (cases s) (simp add: andThen_def invoke_def)

subsection \<open>The session counters\<close>

lemma keeps_ret: "sessions (snd (ret x s)) = sessions s"
  by (simp add: ret_def)

lemma keeps_throw: "sessions (snd (throw e s)) = sessions s"
  by (simp add: throw_def)

lemma keeps_invoke: "sessions (snd (invoke c f s)) = sessions s"
  by (simp add: invoke_def sessions_def split: prod.splits)

lemma keeps_invokeTimer: "sessions (snd (invokeTimer env ms s)) = sessions s"
  by (simp add: invokeTimer_def sessions_def)

lemma keeps_dateNow: "sessions (snd (dateNow env s)) = sessions s"
  by (simp add: dateNow_def)

lemma keeps_andThen:
  assumes "\<And>s. sessions (snd (m s)) = sessions s"
    and "\<And>x s. sessions (snd (k x s)) = sessions s"
  shows "sessions (snd (andThen m k s)) = sessions s"
proof (cases "m s")
  case (Pair r s')
  from assms(1) [of s] Pair have "sessions s' = sessions s" by simp
  with Pair assms(2) show ?thesis
    by (cases r) (simp_all add: andThen_def)
qed

lemma keeps_promiseAll:
  assumes "\<And>m s. m \<in> set ms \<Longrightarrow> sessions (snd (m s)) = sessions s"
  shows "sessions (snd (promiseAll ms s)) = sessions s"
  using assms
proof (induction ms arbitrary: s)
  case Nil
  show ?case by simp
next
  case (Cons m ms)
  have a: "sessions (snd (m s)) = sessions s"
    using Cons.prems by simp
  have b: "sessions (snd (promiseAll ms (snd (m s)))) = sessions (snd (m s))"
    using Cons.IH Cons.prems by simp
  show ?case
    using a b by (simp add: split_beta)
qed

lemmas keeps = keeps_ret keeps_throw keeps_invoke keeps_invokeTimer keeps_dateNow

lemma keeps_performAction: "sessions (snd (performAction env a s)) = sessions s"
  unfolding performAction_def Let_def
  by (simp add: keeps keeps_andThen)

lemma keeps_runAction: "sessions (snd (runAction env a results s)) = sessions s"
  using keeps_performAction [of env a s]
  by (simp add: runAction_def split_beta split: sum.splits)

lemma keeps_runActions: "sessions (snd (runActions env acts results s)) = sessions s"
proof (induction acts arbitrary: results s)
  case Nil
  show ?case by simp
next
  case (Cons a acts)
  show ?case
    using keeps_runAction [of env a results s] Cons.IH
    by (simp add: split_beta)
qed

lemma keeps_scrapeWait: "sessions (snd (scrapeWait env w s)) = sessions s"
  by (simp add: scrapeWait_def keeps split: option.splits)

lemma keeps_scrapeContent: "sessions (snd (scrapeContent env sel s)) = sessions s"
  unfolding scrapeContent_def Let_def
  by (auto intro!: keeps_andThen keeps_promiseAll simp: keeps)

lemma keeps_scrapeExtract: "sessions (snd (scrapeExtract env args s)) = sessions s"
  unfolding scrapeExtract_def Let_def
  by (auto intro!: keeps_andThen simp: keeps keeps_scrapeContent)

lemma keeps_performancePart: "sessions (snd (performancePart env ip t s)) = sessions s"
  unfolding performancePart_def
  by (auto intro!: keeps_andThen simp: keeps split: sum.splits)

lemma sessions_tryFinally:
  assumes "\<And>s. sessions (snd (body s)) = sessions s"
  shows "sessions (snd (tryFinally body (closeBrowser env) s)) = (started s, Suc (stopped s))"
  using assms [of s]
  by (simp add: tryFinally_def closeBrowser_def sessions_def split_beta)

lemma keeps_testBody:
  "sessions (snd ((\<lambda>s. case runActions env acts results s of
       (results', s') \<Rightarrow> (Inr (testReport results'), s')) s)) = sessions s"
  using keeps_runActions [of env acts results s] by (simp add: split_beta)

lemma testReactApp_sessions:
  assumes "knownBrowser (browserOf args)"
    and "pw_launch env (browserOf args) (world s) = (Inr (), w1)"
    and "pw_newPage env w1 = (Inr (), w2)"
  shows "sessions (snd (testReactApp env args s)) = (Suc (started s), Suc (stopped s))"
  unfolding testReactApp_def
  by (subst session_prefix [OF assms], subst sessions_tryFinally)
     (auto intro!: keeps_andThen keeps_testBody simp: keeps)

lemma scrapePage_sessions:
  assumes "knownBrowser (browserOf args)"
    and "pw_launch env (browserOf args) (world s) = (Inr (), w1)"
    and "pw_newPage env w1 = (Inr (), w2)"
  shows "sessions (snd (scrapePage env args s)) = (Suc (started s), Suc (stopped s))"
  unfolding scrapePage_def
  by (subst session_prefix [OF assms], subst sessions_tryFinally)
     (auto intro!: keeps_andThen simp: keeps keeps_scrapeWait keeps_scrapeExtract)

lemma getPageInfo_sessions:
  assumes "knownBrowser (browserOf args)"
    and "pw_launch env (browserOf args) (world s) = (Inr (), w1)"
    and "pw_newPage env w1 = (Inr (), w2)"
  shows "sessions (snd (getPageInfo env args s)) = (Suc (started s), Suc (stopped s))"
  unfolding getPageInfo_def Let_def
  by (subst session_prefix [OF assms], subst sessions_tryFinally)
     (auto intro!: keeps_andThen simp: keeps keeps_performancePart)

lemma waitForElement_sessions:
  assumes "knownBrowser (browserOf args)"
    and "pw_launch env (browserOf args) (world s) = (Inr (), w1)"
    and "pw_newPage env w1 = (Inr (), w2)"
  shows "sessions (snd (waitForElement env args s)) = (Suc (started s), Suc (stopped s))"
  unfolding waitForElement_def Let_def
  by (subst session_prefix [OF assms], subst sessions_tryFinally)
     (auto intro!: keeps_andThen simp: keeps split: option.splits)

lemma page_fault_prefix:
  assumes "knownBrowser b"
    and "pw_launch env b (world s) = (Inr (), w1)"
    and "pw_newPage env w1 = (Inl e, w2)"
  shows "andThen (getBrowser env (Some b)) (\<lambda>_. andThen (invoke NewPage (pw_newPage env)) (\<lambda>_. body)) s
       = (Inl e, \<lparr>trace = trace s @ [Launch b, NewPage], started = Suc (started s),
               stopped = stopped s, world = w2\<rparr>)"
  using assms by (cases s) (simp add: andThen_def getBrowser_def invoke_def knownBrowser_def)

lemma page_creation_fault:
  assumes "knownBrowser (browserOf args)"
    and "pw_launch env (browserOf args) (world s) = (Inr (), w1)"
    and "pw_newPage env w1 = (Inl e, w2)"
  shows "sessions (snd (callTool env (Test_react_app args) s)) = (Suc (started s), stopped s)"
proof -
  have "testReactApp env args s
      = (Inl e, \<lparr>trace = trace s @ [Launch (browserOf args), NewPage], started = Suc (started s),
                 stopped = stopped s, world = w2\<rparr>)"
    unfolding testReactApp_def by (rule page_fault_prefix [OF assms])
  then show ?thesis
    by (simp add: callTool_def sessions_def)
qed

subsection \<open>Steps of a request\<close>

lemma goto_ok:
  assumes "pw_goto env u w2 = (Inr (), w3)"
  shows "invoke (Goto u) (pw_goto env u) \<lparr>trace = tr, started = a, stopped = b, world = w2\<rparr>
       = (Inr (), \<lparr>trace = tr @ [Goto u], started = a, stopped = b, world = w3\<rparr>)"
  using assms by (simp add: invoke_def)


lemma testReactApp_report:
  assumes "knownBrowser (browserOf args)"
    and "pw_launch env (browserOf args) (world s) = (Inr (), w1)"
    and "pw_newPage env w1 = (Inr (), w2)"
    and "pw_goto env (url args) w2 = (Inr (), w3)"
  shows "fst (testReactApp env args s)
         = Inr (testReport (navigatedLine (url args) #
             outcomes env (actions args)
               \<lparr>trace = trace s @ [Launch (browserOf args), NewPage, Goto (url args)],
                started = Suc (started s), stopped = stopped s, world = w3\<rparr>))"
proof -
  let ?s3 = "\<lparr>trace = trace s @ [Launch (browserOf args), NewPage, Goto (url args)],
                started = Suc (started s), stopped = stopped s, world = w3\<rparr>"
  have "testReactApp env args s
      = tryFinally (\<lambda>s. case runActions env (actions args) [navigatedLine (url args)] s of
               (results, s') \<Rightarrow> (Inr (testReport results), s')) (closeBrowser env) ?s3"
    unfolding testReactApp_def
    by (simp add: session_prefix [OF assms(1-3)] tryFinally_def goto_step assms(4))
  then have "fst (testReactApp env args s)
      = Inr (testReport (fst (runActions env (actions args) [navigatedLine (url args)] ?s3)))"
    by (simp add: tryFinally_def split: prod.splits)
  then show ?thesis
    by (simp add: runActions_outcomes)
qed

subsection \<open>testReactApp: the number of outcome entries\<close>



subsection \<open>testReactApp: a failing action does not abort the sequence\<close>



subsection \<open>testReactApp: unknown action kinds\<close>

text \<open>
  Claim C7. An action whose kind is none of click, fill, wait, screenshot, getText and
  getAttribute makes no library call; its entry is the failed entry
  \<^verbatim>\<open>Unknown action type: <kind>\<close>, recorded after the entries of the actions before
  it, and the loop goes on with the actions after it.
\<close>

theorem unknown_kind_recorded:
  assumes "\<not> knownKind (a_type a)"
  shows "performAction env a st = (Inr (cross_mark @ '' Unknown action type: '' @ a_type a), st)
       \<and> runActions env (pre @ a # post) results s
           = runActions env post
               (fst (runActions env pre results s)
                  @ [cross_mark @ '' Unknown action type: '' @ a_type a])
               (snd (runActions env pre results s))"
proof -
  have p: "performAction env a st = (Inr (cross_mark @ '' Unknown action type: '' @ a_type a), st)"
    for st :: "'a state"
    using assms by (simp add: performAction_def knownKind_def ret_def)
  show ?thesis
    by (simp add: p runActions_append runAction_def)
qed

theorem unknown_kind_recorded_witness:
  "\<not> knownKind ''hover''
   \<and> fst (runActions demo
        ([mkAction ''click'' (Some ''#login'') None] @ mkAction ''hover'' None None
           # [mkAction ''getText'' (Some ''#status'') None]) [] (init demo_world0))
     = [check_mark @ '' Clicked: #login'',
        cross_mark @ '' Unknown action type: hover'',
        check_mark @ '' Text from #status: '' @ dquote @ ''text of #status'' @ dquote]"
proof -
  have k: "\<not> knownKind (a_type (mkAction ''hover'' None None))"
    by (simp add: knownKind_def mkAction_def)
  have r: "fst (runActions demo [mkAction ''getText'' (Some ''#status'') None]
        (fst (runActions demo [mkAction ''click'' (Some ''#login'') None] [] (init demo_world0))
           @ [cross_mark @ '' Unknown action type: '' @ a_type (mkAction ''hover'' None None)])
        (snd (runActions demo [mkAction ''click'' (Some ''#login'') None] [] (init demo_world0))))
     = [check_mark @ '' Clicked: #login'',
        cross_mark @ '' Unknown action type: hover'',
        check_mark @ '' Text from #status: '' @ dquote @ ''text of #status'' @ dquote]"
    by code_simp
  show ?thesis
    using unknown_kind_recorded [OF k, of demo _ "[mkAction ''click'' (Some ''#login'') None]"
        "[mkAction ''getText'' (Some ''#status'') None]" "[]" "init demo_world0"] r k
    by (simp add: mkAction_def)
qed

subsection \<open>The release of the browser\<close>

text \<open>
  Claim C3. Every browser that an operation starts is to be closed exactly once before the
  response is returned, also when a fault is raised during page creation. In the source,
  \<^verbatim>\<open>browser.newPage()\<close> is awaited before the \<^verbatim>\<open>try\<close> whose \<^verbatim>\<open>finally\<close> closes the
  browser: with a browser that starts and then fails to create a page, each of the four
  operations answers with an error, the browser was started once and
  \<^verbatim>\<open>browser.close\<close> was never called. (When the page is created, the browser is closed
  exactly once: lemmas \<open>testReactApp_sessions\<close>, \<open>scrapePage_sessions\<close>,
  \<open>getPageInfo_sessions\<close> and \<open>waitForElement_sessions\<close>.)
\<close>

theorem page_creation_fault_leaks_session:
  "callTool demo (Test_react_app (testArgs demo_actions)) (init demo_world_nopage)
     = (\<lparr>content = [''Error: Target page, context or browser has been closed''], isError = True\<rparr>,
        \<lparr>trace = [Launch ''chromium'', NewPage], started = 1, stopped = 0,
         world = demo_world_nopage\<rparr>)
   \<and> callTool demo (Scrape_page (scrapeArgs None None)) (init demo_world_nopage)
     = (\<lparr>content = [''Error: Target page, context or browser has been closed''], isError = True\<rparr>,
        \<lparr>trace = [Launch ''chromium'', NewPage], started = 1, stopped = 0,
         world = demo_world_nopage\<rparr>)
   \<and> callTool demo (Get_page_info (infoArgs None)) (init demo_world_nopage)
     = (\<lparr>content = [''Error: Target page, context or browser has been closed''], isError = True\<rparr>,
        \<lparr>trace = [Launch ''chromium'', NewPage], started = 1, stopped = 0,
         world = demo_world_nopage\<rparr>)
   \<and> callTool demo (Wait_for_element (waitArgs ''#login'')) (init demo_world_nopage)
     = (\<lparr>content = [''Error: Target page, context or browser has been closed''], isError = True\<rparr>,
        \<lparr>trace = [Launch ''chromium'', NewPage], started = 1, stopped = 0,
         world = demo_world_nopage\<rparr>)"
  by code_simp

subsection \<open>testReactApp: a fill action without a value\<close>

text \<open>
  Claim C4, as stated: a request with a fill action whose value is missing fails with
  ArgumentInvalid before any browser is started. The source validates nothing: on the
  concrete browser the request starts the browser, navigates, calls \<^verbatim>\<open>page.fill\<close> with
  the undefined value, records the rejection as the failed entry of the action and
  returns the report.
\<close>

theorem fill_without_value_counterexample:
  "a_value (mkAction ''fill'' (Some ''#user'') None) = None
   \<and> fst (testReactApp demo (testArgs [mkAction ''fill'' (Some ''#user'') None]) (init demo_world0))
       = Inr (testReport
           [navigatedLine ''http://localhost:3000'',
            cross_mark @ '' Failed fill on #user: value: expected string, got undefined''])
   \<and> trace (snd (testReactApp demo (testArgs [mkAction ''fill'' (Some ''#user'') None])
                    (init demo_world0)))
       = [Launch ''chromium'', NewPage, Goto ''http://localhost:3000'',
          Fill (Some ''#user'') None 5000, Close]
   \<and> sessions (snd (testReactApp demo (testArgs [mkAction ''fill'' (Some ''#user'') None])
                       (init demo_world0))) = (1, 1)"
  by code_simp

text \<open>
  Claim C4, amended. For every request, when the browser starts, the page is created and the
  navigation succeeds, the browser is started (and closed) once and the report is
  returned; a fill action whose value is missing makes the one library call
  \<^verbatim>\<open>page.fill(selector, undefined, {timeout})\<close>, and its entry is the failed entry with the
  captured message when the call rejects, the success entry otherwise.
\<close>

theorem fill_without_value_attempted:
  assumes "knownBrowser (browserOf args)"
    and "pw_launch env (browserOf args) (world s) = (Inr (), w1)"
    and "pw_newPage env w1 = (Inr (), w2)"
    and "pw_goto env (url args) w2 = (Inr (), w3)"
    and "a_type a = ''fill''"
    and "a_value a = None"
  shows "sessions (snd (testReactApp env args s)) = (Suc (started s), Suc (stopped s))
       \<and> fst (testReactApp env args s)
           = Inr (testReport (navigatedLine (url args) #
               outcomes env (actions args)
                 \<lparr>trace = trace s @ [Launch (browserOf args), NewPage, Goto (url args)],
                  started = Suc (started s), stopped = stopped s, world = w3\<rparr>))
       \<and> trace (snd (performAction env a st))
           = trace st @ [Fill (a_selector a) None (case a_timeout a of None \<Rightarrow> 5000 | Some t \<Rightarrow> t)]
       \<and> outcomeOf env a st
           = (case fst (pw_fill env (a_selector a) None
                          (case a_timeout a of None \<Rightarrow> 5000 | Some t \<Rightarrow> t) (world st)) of
                Inl message \<Rightarrow> failedLine a message
              | Inr u \<Rightarrow> check_mark @ '' Filled '' @ dquote @ ''undefined'' @ dquote @ '' into: ''
                           @ showUndef (a_selector a))"
proof -
  have p: "performAction env a st
      = andThen (invoke (Fill (a_selector a) None (case a_timeout a of None \<Rightarrow> 5000 | Some t \<Rightarrow> t))
                   (pw_fill env (a_selector a) None (case a_timeout a of None \<Rightarrow> 5000 | Some t \<Rightarrow> t)))
          (\<lambda>_. ret (check_mark @ '' Filled '' @ dquote @ ''undefined'' @ dquote @ '' into: ''
                           @ showUndef (a_selector a))) st"
    using assms(5,6) by (simp add: performAction_def showUndef_def Let_def)
  have t: "trace (snd (performAction env a st))
           = trace st @ [Fill (a_selector a) None (case a_timeout a of None \<Rightarrow> 5000 | Some t \<Rightarrow> t)]"
    unfolding p by (simp add: andThen_def invoke_def ret_def split_beta split: sum.splits)
  have o: "outcomeOf env a st
           = (case fst (pw_fill env (a_selector a) None
                          (case a_timeout a of None \<Rightarrow> 5000 | Some t \<Rightarrow> t) (world st)) of
                Inl message \<Rightarrow> failedLine a message
              | Inr u \<Rightarrow> check_mark @ '' Filled '' @ dquote @ ''undefined'' @ dquote @ '' into: ''
                           @ showUndef (a_selector a))"
    unfolding outcomeOf_def p
    by (simp add: andThen_def invoke_def ret_def split_beta split: sum.splits)
  show ?thesis
    using testReactApp_sessions [OF assms(1-3)] testReactApp_report [OF assms(1-4)] t o
    by blast
qed

theorem fill_without_value_attempted_witness:
  "sessions (snd (testReactApp demo (testArgs [mkAction ''fill'' (Some ''#user'') None])
                    (init demo_world0))) = (1, 1)
   \<and> fst (testReactApp demo (testArgs [mkAction ''fill'' (Some ''#user'') None]) (init demo_world0))
       = Inr (testReport
           [navigatedLine ''http://localhost:3000'',
            cross_mark @ '' Failed fill on #user: value: expected string, got undefined''])
   \<and> trace (snd (performAction demo (mkAction ''fill'' (Some ''#user'') None) (init demo_world0)))
       = [Fill (Some ''#user'') None 5000]
   \<and> outcomeOf demo (mkAction ''fill'' (Some ''#user'') None) (init demo_world0)
       = cross_mark @ '' Failed fill on #user: value: expected string, got undefined''"
proof -
  let ?a = "mkAction ''fill'' (Some ''#user'') None"
  have k: "knownBrowser (browserOf (testArgs [?a]))"
    by (simp add: knownBrowser_def browserOf_def testArgs_def)
  have l: "pw_launch demo (browserOf (testArgs [?a])) (world (init demo_world0))
      = (Inr (), demo_world0)"
    by (simp add: demo_def init_def)
  have p: "pw_newPage demo demo_world0 = (Inr (), demo_world0)"
    by (simp add: demo_def demo_world0_def)
  have g: "pw_goto demo (url (testArgs [?a])) demo_world0
      = (Inr (), demo_world0\<lparr>clock := 1150\<rparr>)"
    by (simp add: demo_def demo_world0_def)
  have f: "a_type ?a = ''fill''" and v: "a_value ?a = None"
    by (simp_all add: mkAction_def)
  have o: "outcomes demo [?a]
       \<lparr>trace = [Launch ''chromium'', NewPage, Goto ''http://localhost:3000''],
        started = Suc 0, stopped = 0, world = demo_world0\<lparr>clock := 1150\<rparr>\<rparr>
     = [cross_mark @ '' Failed fill on #user: value: expected string, got undefined'']"
    by code_simp
  have c: "(case fst (pw_fill demo (a_selector ?a) None
                          (case a_timeout ?a of None \<Rightarrow> 5000 | Some t \<Rightarrow> t)
                          (world (init demo_world0))) of
                Inl message \<Rightarrow> failedLine ?a message
              | Inr u \<Rightarrow> check_mark @ '' Filled '' @ dquote @ ''undefined'' @ dquote @ '' into: ''
                           @ showUndef (a_selector ?a))
      = cross_mark @ '' Failed fill on #user: value: expected string, got undefined''"
    by code_simp
  show ?thesis
    using fill_without_value_attempted [OF k l p g f v, of "init demo_world0"] o c
    by (simp add: testArgs_def init_def browserOf_def mkAction_def)
qed

subsection \<open>scrapePage: the wait before the extraction\<close>



text \<open>
  Claim C9. After a successful navigation, for a \<open>waitFor\<close> that is not made of digits
  only: when it is a non-empty string, \<open>scrapePage\<close> waits for it as a selector with the
  deadline 10000, whatever the request carries (the arguments are any extension of the
  fields that scrapePage reads); when the wait rejects, the request fails with its
  message and the browser is closed, otherwise the content is extracted. When
  \<open>waitFor\<close> is absent or empty, there is no wait at all.
\<close>

theorem scrapePage_selector_wait_deadline:
  fixes env :: "('w, 'h) playwright" and args :: "'z scrape_args_scheme"
  assumes "knownBrowser (browserOf args)"
    and "pw_launch env (browserOf args) (world s) = (Inr (), w1)"
    and "pw_newPage env w1 = (Inr (), w2)"
    and "pw_goto env (url args) w2 = (Inr (), w3)"
  shows "(truthy (waitFor args) \<and> \<not> isDigits (showUndef (waitFor args)) \<longrightarrow>
          scrapePage env args s
            = (case pw_waitForSelector env (waitFor args) 10000 w3 of
                 (Inl e, w4) \<Rightarrow>
                   (Inl e,
                    \<lparr>trace = trace s @ [Launch (browserOf args), NewPage, Goto (url args),
                                        WaitForSelector (waitFor args) 10000, Close],
                     started = Suc (started s), stopped = Suc (stopped s),
                     world = pw_close env w4\<rparr>)
               | (Inr u, w4) \<Rightarrow>
                   tryFinally (scrapeExtract env args) (closeBrowser env)
                     \<lparr>trace = trace s @ [Launch (browserOf args), NewPage, Goto (url args),
                                         WaitForSelector (waitFor args) 10000],
                      started = Suc (started s), stopped = stopped s, world = w4\<rparr>))
       \<and> (\<not> truthy (waitFor args) \<longrightarrow>
          scrapePage env args s
            = tryFinally (scrapeExtract env args) (closeBrowser env)
                \<lparr>trace = trace s @ [Launch (browserOf args), NewPage, Goto (url args)],
                 started = Suc (started s), stopped = stopped s, world = w3\<rparr>)"
proof -
  have run: "scrapePage env args s
      = tryFinally
          (andThen (scrapeWait env (waitFor args)) (\<lambda>_. scrapeExtract env args))
          (closeBrowser env)
          \<lparr>trace = trace s @ [Launch (browserOf args), NewPage, Goto (url args)],
           started = Suc (started s), stopped = stopped s, world = w3\<rparr>"
    unfolding scrapePage_def
    by (subst session_prefix [OF assms(1-3)])
       (simp add: tryFinally_def andThen_def goto_ok [OF assms(4)])
  have selector: "scrapePage env args s
            = (case pw_waitForSelector env (waitFor args) 10000 w3 of
                 (Inl e, w4) \<Rightarrow>
                   (Inl e,
                    \<lparr>trace = trace s @ [Launch (browserOf args), NewPage, Goto (url args),
                                        WaitForSelector (waitFor args) 10000, Close],
                     started = Suc (started s), stopped = Suc (stopped s),
                     world = pw_close env w4\<rparr>)
               | (Inr u, w4) \<Rightarrow>
                   tryFinally (scrapeExtract env args) (closeBrowser env)
                     \<lparr>trace = trace s @ [Launch (browserOf args), NewPage, Goto (url args),
                                         WaitForSelector (waitFor args) 10000],
                      started = Suc (started s), stopped = stopped s, world = w4\<rparr>)"
    if t: "truthy (waitFor args)" and d: "\<not> isDigits (showUndef (waitFor args))"
  proof -
    from t obtain w where w: "waitFor args = Some w" "w \<noteq> []"
      by (auto simp: truthy_def split: option.splits)
    with d have nd: "\<not> isDigits w"
      by (simp add: showUndef_def)
    have wait: "scrapeWait env (waitFor args)
        = invoke (WaitForSelector (waitFor args) 10000) (pw_waitForSelector env (waitFor args) 10000)"
      using w nd by (simp add: scrapeWait_def)
    show ?thesis
    proof (cases "pw_waitForSelector env (waitFor args) 10000 w3")
      case (Pair r w4)
      show ?thesis
        by (cases r)
           (simp_all add: run wait tryFinally_def andThen_def invoke_def closeBrowser_def Pair)
    qed
  qed
  have none: "scrapePage env args s
            = tryFinally (scrapeExtract env args) (closeBrowser env)
                \<lparr>trace = trace s @ [Launch (browserOf args), NewPage, Goto (url args)],
                 started = Suc (started s), stopped = stopped s, world = w3\<rparr>"
    if "\<not> truthy (waitFor args)"
  proof -
    have "scrapeWait env (waitFor args) = ret ()"
      using that by (simp add: scrapeWait_def truthy_def split: option.splits)
    then show ?thesis
      by (simp add: run tryFinally_def andThen_def ret_def)
  qed
  from selector none show ?thesis
    by blast
qed

theorem scrapePage_selector_wait_deadline_witness:
  "scrapePage demo
     \<lparr>url = ''http://localhost:3000'', browser = None, selector = None, waitFor = Some ''#nope'',
      screenshot = None, extra_timeout = 500\<rparr> (init demo_world0)
   = (Inl ''Timeout exceeded.'',
      \<lparr>trace = [Launch ''chromium'', NewPage, Goto ''http://localhost:3000'',
                WaitForSelector (Some ''#nope'') 10000, Close],
       started = 1, stopped = 1, world = demo_world0\<lparr>clock := 11150\<rparr>\<rparr>)
   \<and> trace (snd (scrapePage demo (scrapeArgs None (Some [])) (init demo_world0)))
   = [Launch ''chromium'', NewPage, Goto ''http://localhost:3000'', TextContent (Some ''body''),
      Close]"
proof -
  let ?args = "\<lparr>url = ''http://localhost:3000'', browser = None, selector = None,
      waitFor = Some ''#nope'', screenshot = None, extra_timeout = 500\<rparr>"
  let ?noWait = "scrapeArgs None (Some [])"
  let ?afterGoto = "demo_world0\<lparr>clock := 1150\<rparr>"
  have k: "knownBrowser (browserOf ?args)" and k0: "knownBrowser (browserOf ?noWait)"
    by (simp_all add: knownBrowser_def browserOf_def scrapeArgs_def)
  have l: "pw_launch demo (browserOf ?args) (world (init demo_world0)) = (Inr (), demo_world0)"
    and l0: "pw_launch demo (browserOf ?noWait) (world (init demo_world0)) = (Inr (), demo_world0)"
    by (simp_all add: demo_def init_def)
  have p: "pw_newPage demo demo_world0 = (Inr (), demo_world0)"
    by (simp add: demo_def demo_world0_def)
  have g: "pw_goto demo (url ?args) demo_world0 = (Inr (), ?afterGoto)"
    and g0: "pw_goto demo (url ?noWait) demo_world0 = (Inr (), ?afterGoto)"
    by (simp_all add: demo_def demo_world0_def)
  have t: "truthy (waitFor ?args) \<and> \<not> isDigits (showUndef (waitFor ?args))"
    by (simp add: truthy_def showUndef_def isDigits_def isDigit_def)
  have t0: "\<not> truthy (waitFor ?noWait)"
    by code_simp
  have f: "pw_waitForSelector demo (waitFor ?args) 10000 ?afterGoto
      = (Inl ''Timeout exceeded.'', demo_world0\<lparr>clock := 11150\<rparr>)"
    by (simp add: demo_def locate_def demo_world0_def)
  have c: "pw_close demo (demo_world0\<lparr>clock := 11150\<rparr>) = demo_world0\<lparr>clock := 11150\<rparr>"
    by (simp add: demo_def)
  have e: "trace (snd (tryFinally (scrapeExtract demo ?noWait) (closeBrowser demo)
             \<lparr>trace = trace (init demo_world0)
                        @ [Launch (browserOf ?noWait), NewPage, Goto (url ?noWait)],
              started = Suc (started (init demo_world0)), stopped = stopped (init demo_world0),
              world = ?afterGoto\<rparr>))
      = [Launch ''chromium'', NewPage, Goto ''http://localhost:3000'', TextContent (Some ''body''),
         Close]"
    by code_simp
  from scrapePage_selector_wait_deadline [OF k l p g] t
  have a: "scrapePage demo ?args (init demo_world0)
      = (case pw_waitForSelector demo (waitFor ?args) 10000 ?afterGoto of
                 (Inl e, w4) \<Rightarrow>
                   (Inl e,
                    \<lparr>trace = trace (init demo_world0)
                               @ [Launch (browserOf ?args), NewPage, Goto (url ?args),
                                  WaitForSelector (waitFor ?args) 10000, Close],
                     started = Suc (started (init demo_world0)),
                     stopped = Suc (stopped (init demo_world0)),
                     world = pw_close demo w4\<rparr>)
               | (Inr u, w4) \<Rightarrow>
                   tryFinally (scrapeExtract demo ?args) (closeBrowser demo)
                     \<lparr>trace = trace (init demo_world0)
                                @ [Launch (browserOf ?args), NewPage, Goto (url ?args),
                                   WaitForSelector (waitFor ?args) 10000],
                      started = Suc (started (init demo_world0)),
                      stopped = stopped (init demo_world0), world = w4\<rparr>)"
    by blast
  from scrapePage_selector_wait_deadline [OF k0 l0 p g0] t0
  have b: "scrapePage demo ?noWait (init demo_world0)
      = tryFinally (scrapeExtract demo ?noWait) (closeBrowser demo)
             \<lparr>trace = trace (init demo_world0)
                        @ [Launch (browserOf ?noWait), NewPage, Goto (url ?noWait)],
              started = Suc (started (init demo_world0)), stopped = stopped (init demo_world0),
              world = ?afterGoto\<rparr>"
    by blast
  show ?thesis
    unfolding b e unfolding a f
    by (simp add: c init_def browserOf_def)
qed

subsection \<open>waitForElement: a selector of digits\<close>




subsection \<open>getPageInfo: the performance part\<close>




subsection \<open>getPageInfo: headings and meta tags\<close>



end
